theory Spec2Isabelle
  imports Complex_Main
begin

section \<open>QUANTAID Lite: the live event simulator of the dashboards\<close>

text \<open>
  The React components keep their state in \<open>useState\<close> cells and change it through
  updater functions (\<open>setAlerts(prev => ...)\<close>). Each updater is embedded as the pure
  function from the previous value to the next one. JavaScript numbers are modelled as
  \<open>real\<close>: the properties of the metrics rest on comparisons, \<open>Math.max\<close>, \<open>Math.min\<close>
  and \<open>Math.floor\<close>, not on the rounding of a sum. The id of an alert is the exception,
  and its sum is rounded as a double. Every \<open>Math.random()\<close> draw and every clock
  reading is an explicit argument.
\<close>

subsection \<open>RealTimeDashboard: the two bounded queues\<close>

text \<open>
  \<open>setAlerts(prev => [newAlert, ...prev.slice(0, 9)])\<close>: the new alert goes to the
  front and the first nine of the previous alerts are kept.
\<close>

definition push_alert :: "'a \<Rightarrow> 'a list \<Rightarrow> 'a list" where
  "push_alert newAlert prev = newAlert # take 9 prev"

text \<open>
  \<open>setLiveData(prev => [...prev.slice(-9), newData])\<close>: \<open>slice(-9)\<close> starts at index
  \<open>max (length - 9) 0\<close>, which is the truncating subtraction of \<open>nat\<close>.
\<close>

definition push_data :: "'a \<Rightarrow> 'a list \<Rightarrow> 'a list" where
  "push_data newData prev = drop (length prev - 9) prev @ [newData]"

text \<open>A run of pushes, the first element of the list pushed first.\<close>

definition push_alerts :: "'a list \<Rightarrow> 'a list \<Rightarrow> 'a list" where
  "push_alerts prev es = foldl (\<lambda>q e. push_alert e q) prev es"

definition push_datas :: "'a list \<Rightarrow> 'a list \<Rightarrow> 'a list" where
  "push_datas prev es = foldl (\<lambda>q e. push_data e q) prev es"

subsection \<open>RealTimeDashboard: the alert generator\<close>

datatype severity = High | Medium | Low

datatype icon = AlertTriangle | Brain | Atom | Activity

record alert_type =
  type_name :: string
  type_icon :: icon
  type_color :: string
  messages :: "string list"

definition alertTypes :: "alert_type list" where
  "alertTypes =
    [\<lparr>type_name = ''crisis'', type_icon = AlertTriangle, type_color = ''red'',
      messages =
       [''Drought conditions worsening in Horn of Africa'',
        ''Flood risk elevated in Bangladesh Delta'',
        ''Food security declining in Sahel region'',
        ''Hurricane approaching Central America'']\<rparr>,
     \<lparr>type_name = ''prediction'', type_icon = Brain, type_color = ''blue'',
      messages =
       [''AI model detected yield anomaly in wheat belt'',
        ''Ensemble prediction confidence increased to 96%'',
        ''New climate pattern identified affecting corn production'',
        ''Risk assessment updated for 3 regions'']\<rparr>,
     \<lparr>type_name = ''quantum'', type_icon = Atom, type_color = ''purple'',
      messages =
       [''Quantum optimization completed for resource allocation'',
        ''QAOA algorithm achieved 18% efficiency gain'',
        ''Route optimization reduced delivery time by 25%'',
        ''Quantum circuit depth optimized for faster execution'']\<rparr>,
     \<lparr>type_name = ''system'', type_icon = Activity, type_color = ''green'',
      messages =
       [''Real-time data sync completed successfully'',
        ''Model training completed with improved accuracy'',
        ''System performance optimized'',
        ''New data sources integrated'']\<rparr>]"

record alert =
  id_alert :: real
  type_alert :: string
  icon_alert :: icon
  color_alert :: string
  message :: string
  timestamp :: nat
  severity :: severity
  read :: bool

text \<open>
  What one call of \<open>generateAlert\<close> reads from its environment, in the order of the
  source: the draw choosing the type, the draw choosing the message, the clock and the
  draw of the id, the clock of the timestamp, and the draws of the severity expression.
  \<open>r_severity2\<close> is the second \<open>Math.random()\<close> of that expression, which JavaScript
  evaluates only when the first test fails.
\<close>

record alert_inputs =
  r_type :: real
  r_message :: real
  now_id :: nat
  r_id :: real
  now_timestamp :: nat
  r_severity1 :: real
  r_severity2 :: real

text \<open>
  \<open>Math.random() > 0.7 ? 'high' : Math.random() > 0.4 ? 'medium' : 'low'\<close>. The two
  calls of \<open>Math.random()\<close> are two draws.
\<close>

definition severity_of_draws :: "real \<Rightarrow> real \<Rightarrow> severity" where
  "severity_of_draws r1 r2 = (if r1 > 0.7 then High else if r2 > 0.4 then Medium else Low)"

text \<open>
  The rule in the words of the specification, with one draw: high above 0.7, medium
  above 0.4, low otherwise.
\<close>

definition spec_severity :: "real \<Rightarrow> severity" where
  "spec_severity r = (if r > 0.7 then High else if r > 0.4 then Medium else Low)"

text \<open>
  \<open>Date.now() + Math.random()\<close>. Whether two ids are equal depends on how this sum is
  rounded, so it is the one sum that is modelled as the double addition it is: the exact
  sum rounded to the nearest double, ties to the even significand. \<open>Date.now()\<close> is a
  whole number of milliseconds below \<open>2 ^ 53\<close> and the draw is in \<open>[0, 1)\<close>, so for a clock
  value \<open>now > 0\<close> the exact sum lies in the binade of \<open>now\<close>, from \<open>2 ^ binade now\<close> up to
  twice that, where neighbouring doubles are \<open>2 ^ binade now / 2 ^ 52\<close> apart. At the clock
  value 0 the sum is the draw itself.
\<close>

fun binade :: "nat \<Rightarrow> nat" where
  "binade n = (if n < 2 then 0 else Suc (binade (n div 2)))"

definition round_half_even :: "real \<Rightarrow> int" where
  "round_half_even q =
     (let f = \<lfloor>q\<rfloor>
      in if q - real_of_int f < 1 / 2 then f
         else if q - real_of_int f > 1 / 2 then f + 1
         else if even f then f else f + 1)"

definition double_sum :: "nat \<Rightarrow> real \<Rightarrow> real" where
  "double_sum now r =
     (if now = 0 then r
      else (let ulp = 2 ^ binade now / 2 ^ 52
            in ulp * real_of_int (round_half_even ((real now + r) / ulp))))"

text \<open>
  \<open>xs[Math.floor(r * xs.length)]\<close>. \<open>Math.random()\<close> returns a number in \<open>[0, 1)\<close>, so
  the index is in range in every run of the program; for any other \<open>r\<close> JavaScript reads
  \<open>undefined\<close>, which is \<open>None\<close> here.
\<close>

definition random_element :: "'a list \<Rightarrow> real \<Rightarrow> 'a option" where
  "random_element xs r =
     (let i = \<lfloor>r * real (length xs)\<rfloor>
      in if 0 \<le> i \<and> i < int (length xs) then Some (xs ! nat i) else None)"

definition generateAlert :: "alert_inputs \<Rightarrow> alert option" where
  "generateAlert inp =
     (case random_element alertTypes (r_type inp) of
        None \<Rightarrow> None
      | Some randomType \<Rightarrow>
          (case random_element (messages randomType) (r_message inp) of
             None \<Rightarrow> None
           | Some randomMessage \<Rightarrow>
               Some \<lparr>id_alert = double_sum (now_id inp) (r_id inp),
                     type_alert = type_name randomType,
                     icon_alert = type_icon randomType,
                     color_alert = type_color randomType,
                     message = randomMessage,
                     timestamp = now_timestamp inp,
                     severity = severity_of_draws (r_severity1 inp) (r_severity2 inp),
                     read = False\<rparr>))"

subsection \<open>RealTimeDashboard: live samples and system metrics\<close>

record live_sample =
  timestamp_sample :: string
  ai_predictions :: real
  quantum_operations :: real
  crisis_score :: real
  response_efficiency :: real

record sample_inputs =
  time_string :: string
  r_ai :: real
  r_quantum :: real
  r_crisis :: real
  r_response :: real

definition generateMetricsData :: "sample_inputs \<Rightarrow> live_sample" where
  "generateMetricsData inp =
     \<lparr>timestamp_sample = time_string inp,
      ai_predictions = real_of_int \<lfloor>r_ai inp * 20\<rfloor> + 80,
      quantum_operations = real_of_int \<lfloor>r_quantum inp * 15\<rfloor> + 25,
      crisis_score = real_of_int \<lfloor>r_crisis inp * 30\<rfloor> + 40,
      response_efficiency = real_of_int \<lfloor>r_response inp * 20\<rfloor> + 75\<rparr>"

record system_metrics =
  ai_accuracy :: real
  quantum_efficiency :: real
  active_predictions :: real
  crisis_alerts :: real
  response_time :: real
  uptime :: real

definition initial_metrics :: system_metrics where
  "initial_metrics =
     \<lparr>ai_accuracy = 94.2, quantum_efficiency = 87.5, active_predictions = 156,
      crisis_alerts = 8, response_time = 2.3, uptime = 99.8\<rparr>"

text \<open>The five draws of one metrics update, in the order of the source.\<close>

record metric_draws =
  r_accuracy :: real
  r_efficiency :: real
  r_predictions :: real
  r_alerts :: real
  r_time :: real

definition update_metrics :: "metric_draws \<Rightarrow> system_metrics \<Rightarrow> system_metrics" where
  "update_metrics d prev = prev
     \<lparr>ai_accuracy := max 90 (min 99 (ai_accuracy prev + (r_accuracy d - 0.5) * 2)),
      quantum_efficiency :=
        max 80 (min 95 (quantum_efficiency prev + (r_efficiency d - 0.5) * 3)),
      active_predictions :=
        max 100 (min 200
          (active_predictions prev + real_of_int \<lfloor>(r_predictions d - 0.5) * 10\<rfloor>)),
      crisis_alerts :=
        max 0 (min 20 (crisis_alerts prev + real_of_int \<lfloor>(r_alerts d - 0.5) * 2\<rfloor>)),
      response_time := max 1 (min 5 (response_time prev + (r_time d - 0.5) * 0.5))\<rparr>"

subsection \<open>RealTimeDashboard: dismissing and acknowledging alerts\<close>

definition dismissAlert :: "real \<Rightarrow> alert list \<Rightarrow> alert list" where
  "dismissAlert alertId prev = filter (\<lambda>a. id_alert a \<noteq> alertId) prev"

definition markAsRead :: "real \<Rightarrow> alert list \<Rightarrow> alert list" where
  "markAsRead alertId prev =
     map (\<lambda>a. if id_alert a = alertId then a\<lparr>read := True\<rparr> else a) prev"

text \<open>
  The three ways the component changes its alert list, and a run of them. \<open>pushed\<close>
  collects the alerts a run inserts.
\<close>

datatype queue_op = Push alert | Dismiss real | MarkRead real

fun apply_op :: "queue_op \<Rightarrow> alert list \<Rightarrow> alert list" where
  "apply_op (Push a) q = push_alert a q"
| "apply_op (Dismiss i) q = dismissAlert i q"
| "apply_op (MarkRead i) q = markAsRead i q"

definition run_ops :: "alert list \<Rightarrow> queue_op list \<Rightarrow> alert list" where
  "run_ops q ops = foldl (\<lambda>q op. apply_op op q) q ops"

fun pushed :: "queue_op list \<Rightarrow> alert list" where
  "pushed [] = []"
| "pushed (Push a # ops) = a # pushed ops"
| "pushed (_ # ops) = pushed ops"

subsection \<open>RealTimeDashboard: the component and its timers\<close>

text \<open>
  The state cells of the component, together with the set of intervals that are
  registered with the browser: \<open>setInterval\<close> adds one, \<open>clearInterval\<close> removes it, and
  the browser calls the callback of an interval only while it is registered.
\<close>

datatype interval = AlertInterval | MetricsInterval | ConnectionInterval

record dashboard =
  alerts :: "alert list"
  systemMetrics :: system_metrics
  liveData :: "live_sample list"
  isConnected :: bool
  intervals :: "interval set"

definition initial_dashboard :: dashboard where
  "initial_dashboard =
     \<lparr>alerts = [], systemMetrics = initial_metrics, liveData = [], isConnected = True,
      intervals = {}\<rparr>"

text \<open>
  The body of the effect. \<open>ai\<close>, \<open>si\<close> and \<open>st\<close> give the inputs of the i-th call of
  \<open>generateAlert\<close> and \<open>generateMetricsData\<close> and the i-th formatted clock reading. Were a
  draw outside \<open>[0, 1)\<close>, the effect would stop at the failing call, before any setter.
\<close>

definition mount ::
  "(nat \<Rightarrow> alert_inputs) \<Rightarrow> (nat \<Rightarrow> sample_inputs) \<Rightarrow> (nat \<Rightarrow> string) \<Rightarrow> dashboard \<Rightarrow> dashboard"
where
  "mount ai si st s =
     (case those (map (\<lambda>i. generateAlert (ai i)) [0..<3]) of
        None \<Rightarrow> s
      | Some initialAlerts \<Rightarrow>
          (let initialData =
                 map (\<lambda>i. (generateMetricsData (si i))\<lparr>timestamp_sample := st i\<rparr>) [0..<10]
           in s\<lparr>alerts := initialAlerts, liveData := initialData,
                intervals := insert ConnectionInterval
                  (insert MetricsInterval (insert AlertInterval (intervals s)))\<rparr>))"

definition alertCallback :: "real \<Rightarrow> alert_inputs \<Rightarrow> dashboard \<Rightarrow> dashboard" where
  "alertCallback r inp s =
     (if r > 0.7
      then (case generateAlert inp of
              None \<Rightarrow> s
            | Some newAlert \<Rightarrow> s\<lparr>alerts := push_alert newAlert (alerts s)\<rparr>)
      else s)"

definition metricsCallback :: "sample_inputs \<Rightarrow> metric_draws \<Rightarrow> dashboard \<Rightarrow> dashboard" where
  "metricsCallback inp d s =
     s\<lparr>liveData := push_data (generateMetricsData inp) (liveData s),
       systemMetrics := update_metrics d (systemMetrics s)\<rparr>"

definition connectionCallback :: "real \<Rightarrow> dashboard \<Rightarrow> dashboard" where
  "connectionCallback r s = s\<lparr>isConnected := (r > 0.1)\<rparr>"

definition cleanup :: "dashboard \<Rightarrow> dashboard" where
  "cleanup s =
     s\<lparr>intervals := intervals s - {AlertInterval} - {MetricsInterval} - {ConnectionInterval}\<rparr>"

text \<open>One tick-period of a timer elapsing, with what its callback would draw.\<close>

datatype tick =
    AlertTick real alert_inputs
  | MetricsTick sample_inputs metric_draws
  | ConnectionTick real

fun fire :: "tick \<Rightarrow> dashboard \<Rightarrow> dashboard" where
  "fire (AlertTick r inp) s = (if AlertInterval \<in> intervals s then alertCallback r inp s else s)"
| "fire (MetricsTick inp d) s =
     (if MetricsInterval \<in> intervals s then metricsCallback inp d s else s)"
| "fire (ConnectionTick r) s =
     (if ConnectionInterval \<in> intervals s then connectionCallback r s else s)"

definition run :: "dashboard \<Rightarrow> tick list \<Rightarrow> dashboard" where
  "run s ts = foldl (\<lambda>s t. fire t s) s ts"

subsection \<open>ChampionshipDashboard\<close>

record live_alert =
  id_live :: nat
  region_live :: string
  type_live :: string
  severity_live :: string
  time_live :: string

record championship_metrics =
  predictionsToday :: real
  quantumOptimizations :: real
  crisisAlertsActive :: real
  regionsMonitored :: real
  systemHealth :: real
  quantumAdvantage :: real

text \<open>The two intervals of the effect and its one-shot \<open>setTimeout\<close>.\<close>

datatype championship_timer = Interval | LiveAlertInterval | LoadingTimeout

record championship =
  metrics :: championship_metrics
  liveAlerts :: "live_alert list"
  isLoading :: bool
  timers :: "championship_timer set"

definition initial_championship :: championship where
  "initial_championship =
     \<lparr>metrics =
        \<lparr>predictionsToday = 0, quantumOptimizations = 0, crisisAlertsActive = 0,
         regionsMonitored = 12, systemHealth = 98.7, quantumAdvantage = 23.4\<rparr>,
      liveAlerts = [], isLoading = True, timers = {}\<rparr>"

definition mount_championship :: "championship \<Rightarrow> championship" where
  "mount_championship s =
     s\<lparr>timers := insert LoadingTimeout (insert LiveAlertInterval (insert Interval (timers s)))\<rparr>"

definition metrics_callback :: "real \<Rightarrow> real \<Rightarrow> real \<Rightarrow> championship_metrics \<Rightarrow> championship_metrics"
where
  "metrics_callback r1 r2 r3 prev = prev
     \<lparr>predictionsToday := predictionsToday prev + real_of_int \<lfloor>r1 * 3\<rfloor>,
      quantumOptimizations := quantumOptimizations prev + real_of_int \<lfloor>r2 * 2\<rfloor>,
      systemHealth := 98.7 + (r3 - 0.5) * 0.6\<rparr>"

definition live_alerts :: "live_alert list" where
  "live_alerts =
     [\<lparr>id_live = 1, region_live = ''Maharashtra'', type_live = ''Drought Warning'',
       severity_live = ''high'', time_live = ''2 min ago''\<rparr>,
      \<lparr>id_live = 2, region_live = ''West Bengal'', type_live = ''Flood Alert'',
       severity_live = ''critical'', time_live = ''5 min ago''\<rparr>,
      \<lparr>id_live = 3, region_live = ''Rajasthan'', type_live = ''Heat Wave'',
       severity_live = ''warning'', time_live = ''8 min ago''\<rparr>]"

datatype championship_tick = MetricsPeriod real real real | LiveAlertPeriod | LoadingDelay

fun fire_championship :: "championship_tick \<Rightarrow> championship \<Rightarrow> championship" where
  "fire_championship (MetricsPeriod r1 r2 r3) s =
     (if Interval \<in> timers s then s\<lparr>metrics := metrics_callback r1 r2 r3 (metrics s)\<rparr> else s)"
| "fire_championship LiveAlertPeriod s =
     (if LiveAlertInterval \<in> timers s then s\<lparr>liveAlerts := live_alerts\<rparr> else s)"
| "fire_championship LoadingDelay s =
     (if LoadingTimeout \<in> timers s
      then s\<lparr>isLoading := False, timers := timers s - {LoadingTimeout}\<rparr> else s)"

definition cleanup_championship :: "championship \<Rightarrow> championship" where
  "cleanup_championship s = s\<lparr>timers := timers s - {Interval} - {LiveAlertInterval}\<rparr>"

definition run_championship :: "championship \<Rightarrow> championship_tick list \<Rightarrow> championship" where
  "run_championship s ts = foldl (\<lambda>s t. fire_championship t s) s ts"

subsection \<open>WorldMap: the crisis hotspots\<close>

record coordinates =
  lat :: real
  lng :: real

record hotspot =
  id_hotspot :: nat
  name :: string
  country :: string
  coordinates :: coordinates
  severity_hotspot :: string
  type_hotspot :: string
  affected_population :: nat
  risk_score :: real
  temperature_anomaly :: real
  rainfall_deficit :: real
  food_security_index :: real
  predicted_yield_hotspot :: real
  resources_needed :: "(string \<times> string) list"
  timeline :: string
  description :: string

definition hotspots :: "hotspot list" where
  "hotspots =
    [\<lparr>id_hotspot = 1, name = ''Horn of Africa'', country = ''Somalia/Ethiopia'',
      coordinates = \<lparr>lat = 5.0, lng = 46.0\<rparr>, severity_hotspot = ''critical'',
      type_hotspot = ''drought'', affected_population = 15000000, risk_score = 9.2,
      temperature_anomaly = 3.5, rainfall_deficit = - 65, food_security_index = 2.1,
      predicted_yield_hotspot = 0.3,
      resources_needed =
        [(''food'', ''50,000 tonnes''), (''water'', ''2M liters/day''), (''medical'', ''500 kits'')],
      timeline = ''Immediate action required'',
      description = ''Severe drought conditions affecting crop yields and livestock''\<rparr>,
     \<lparr>id_hotspot = 2, name = ''Bangladesh Delta'', country = ''Bangladesh'',
      coordinates = \<lparr>lat = 23.7, lng = 90.4\<rparr>, severity_hotspot = ''high'',
      type_hotspot = ''flooding'', affected_population = 8500000, risk_score = 8.1,
      temperature_anomaly = 1.2, rainfall_deficit = 180, food_security_index = 3.2,
      predicted_yield_hotspot = 0.6,
      resources_needed =
        [(''shelter'', ''10,000 tents''), (''water_purification'', ''200 units''),
         (''medical'', ''300 kits'')],
      timeline = ''72 hours'',
      description = ''Monsoon flooding threatening rice production and displacement''\<rparr>,
     \<lparr>id_hotspot = 3, name = ''Sahel Region'', country = ''Mali/Niger'',
      coordinates = \<lparr>lat = 16.0, lng = 0.0\<rparr>, severity_hotspot = ''high'',
      type_hotspot = ''desertification'', affected_population = 12000000, risk_score = 7.8,
      temperature_anomaly = 2.8, rainfall_deficit = - 45, food_security_index = 2.5,
      predicted_yield_hotspot = 0.4,
      resources_needed =
        [(''food'', ''30,000 tonnes''), (''seeds'', ''500 tonnes''), (''water'', ''1.5M liters/day'')],
      timeline = ''1 week'',
      description = ''Advancing desertification reducing arable land and crop yields''\<rparr>,
     \<lparr>id_hotspot = 4, name = ''Central America'', country = ''Guatemala/Honduras'',
      coordinates = \<lparr>lat = 15.0, lng = - 90.0\<rparr>, severity_hotspot = ''medium'',
      type_hotspot = ''hurricane'', affected_population = 3200000, risk_score = 6.5,
      temperature_anomaly = 0.8, rainfall_deficit = 220, food_security_index = 3.8,
      predicted_yield_hotspot = 0.7,
      resources_needed =
        [(''emergency'', ''1,000 kits''), (''reconstruction'', ''500 units''),
         (''medical'', ''150 kits'')],
      timeline = ''2 weeks'',
      description = ''Hurricane season threatening coffee and corn production''\<rparr>,
     \<lparr>id_hotspot = 5, name = ''Australian Outback'', country = ''Australia'',
      coordinates = \<lparr>lat = - 25.0, lng = 135.0\<rparr>, severity_hotspot = ''medium'',
      type_hotspot = ''wildfire'', affected_population = 500000, risk_score = 6.2,
      temperature_anomaly = 4.1, rainfall_deficit = - 80, food_security_index = 4.2,
      predicted_yield_hotspot = 0.5,
      resources_needed =
        [(''firefighting'', ''200 units''), (''evacuation'', ''50 vehicles''),
         (''medical'', ''100 kits'')],
      timeline = ''Immediate'',
      description = ''Extreme heat and drought conditions increasing wildfire risk''\<rparr>]"

record map_layers =
  temperature_layer :: bool
  rainfall_layer :: bool
  population_layer :: bool
  food_security_layer :: bool

record world_map =
  crisisHotspots :: "hotspot list"
  selectedCrisis :: "hotspot option"
  mapLayers :: map_layers
  isLoading_map :: bool

definition generateCrisisHotspots :: "world_map \<Rightarrow> world_map" where
  "generateCrisisHotspots s = s\<lparr>crisisHotspots := hotspots\<rparr>"

text \<open>
  \<open>refreshData\<close>: the loading flag is raised, the 1500 ms delay passes,
  \<open>generateCrisisHotspots\<close> runs and the flag is lowered.
\<close>

definition refreshData :: "world_map \<Rightarrow> world_map" where
  "refreshData s = (generateCrisisHotspots (s\<lparr>isLoading_map := True\<rparr>))\<lparr>isLoading_map := False\<rparr>"

subsection \<open>The predictors and their network calls\<close>

text \<open>
  An awaited call either rejects with an error (\<open>Inl\<close>, carrying its message) or resolves
  with the parsed response (\<open>Inr\<close>). Of a response only the fields the handlers read or
  fabricate are modelled. The three emoji of the fallback recommendations are written
  as their UTF-8 bytes.
\<close>

record prediction_result =
  predicted_yield :: real
  confidence_score :: real
  risk_level :: string
  recommendations :: "string list"

record crisis_predictor =
  rainfall :: "real list"
  temperature :: "real list"
  region :: string
  prediction :: "prediction_result option"
  loading :: bool

definition initial_crisis_predictor :: crisis_predictor where
  "initial_crisis_predictor =
     \<lparr>rainfall = [750], temperature = [25], region = ''global'', prediction = None,
      loading = False\<rparr>"

definition fallback_prediction :: prediction_result where
  "fallback_prediction =
     \<lparr>predicted_yield = 285.4, confidence_score = 0.87, risk_level = ''medium'',
      recommendations =
        [[CHR 0xF0, CHR 0x9F, CHR 0x8C, CHR 0xBE] @ '' Monitor crop conditions closely'',
         [CHR 0xF0, CHR 0x9F, CHR 0x92, CHR 0xA7] @ '' Implement water conservation measures'',
         [CHR 0xF0, CHR 0x9F, CHR 0x93, CHR 0x8A] @ '' Increase regional monitoring frequency'']\<rparr>"

text \<open>
  \<open>handlePredict\<close> of CrisisPredictor, from the click to the end of the \<open>finally\<close> block;
  the argument is how \<open>apiService.predictYield\<close> settled.
\<close>

definition handlePredict :: "string + prediction_result \<Rightarrow> crisis_predictor \<Rightarrow> crisis_predictor" where
  "handlePredict settled s =
     (let s1 = s\<lparr>loading := True\<rparr>;
          s2 = (case settled of
                  Inr result \<Rightarrow> s1\<lparr>prediction := Some result\<rparr>
                | Inl error \<Rightarrow> s1\<lparr>prediction := Some fallback_prediction\<rparr>)
      in s2\<lparr>loading := False\<rparr>)"

record parameters =
  temperature_p :: real
  rainfall_p :: real
  humidity :: real
  soil_ph :: real
  elevation :: real
  season :: real

record history_entry =
  timestamp_entry :: string
  yield :: real
  confidence :: real

record advanced_ai_predictor =
  parameters :: parameters
  prediction_ai :: "prediction_result option"
  isLoading_ai :: bool
  predictionHistory :: "history_entry list"

definition initial_advanced_ai_predictor :: advanced_ai_predictor where
  "initial_advanced_ai_predictor =
     \<lparr>parameters =
        \<lparr>temperature_p = 25, rainfall_p = 750, humidity = 65, soil_ph = 6.5, elevation = 100,
         season = 2\<rparr>,
      prediction_ai = None, isLoading_ai = False, predictionHistory = []\<rparr>"

text \<open>
  \<open>runPrediction\<close> of AdvancedAIPredictor; \<open>settled\<close> is how \<open>fetch\<close> followed by
  \<open>response.json()\<close> settled and \<open>now\<close> the formatted clock reading of the history
  entry. The \<open>catch\<close> block only logs.
\<close>

definition runPrediction ::
  "string + prediction_result \<Rightarrow> string \<Rightarrow> advanced_ai_predictor \<Rightarrow> advanced_ai_predictor"
where
  "runPrediction settled now s =
     (let s1 = s\<lparr>isLoading_ai := True\<rparr>;
          s2 = (case settled of
                  Inr result \<Rightarrow>
                    s1\<lparr>prediction_ai := Some result,
                       predictionHistory :=
                         push_data
                           \<lparr>timestamp_entry = now, yield = predicted_yield result,
                            confidence = confidence_score result\<rparr>
                           (predictionHistory s1)\<rparr>
                | Inl error \<Rightarrow> s1)
      in s2\<lparr>isLoading_ai := False\<rparr>)"

subsection \<open>Predicates and example values used in the statements\<close>

text \<open>The documented clamp range of each of the five jittered metrics.\<close>

definition within_clamp_ranges :: "system_metrics \<Rightarrow> bool" where
  "within_clamp_ranges m \<longleftrightarrow>
     90 \<le> ai_accuracy m \<and> ai_accuracy m \<le> 99
   \<and> 80 \<le> quantum_efficiency m \<and> quantum_efficiency m \<le> 95
   \<and> 100 \<le> active_predictions m \<and> active_predictions m \<le> 200
   \<and> 0 \<le> crisis_alerts m \<and> crisis_alerts m \<le> 20
   \<and> 1 \<le> response_time m \<and> response_time m \<le> 5"

text \<open>A set of alerts together with their acknowledged versions.\<close>

definition or_acknowledged :: "alert set \<Rightarrow> alert set" where
  "or_acknowledged A = A \<union> (\<lambda>a. a\<lparr>read := True\<rparr>) ` A"

text \<open>An unread alert with a given id, as \<open>generateAlert\<close> builds them.\<close>

definition example_alert :: "real \<Rightarrow> alert" where
  "example_alert i =
     \<lparr>id_alert = i, type_alert = ''system'', icon_alert = Activity, color_alert = ''green'',
      message = ''System performance optimized'', timestamp = 1700000000000, severity = Low,
      read = False\<rparr>"

text \<open>
  The inputs of a call of \<open>generateAlert\<close> and of \<open>generateMetricsData\<close>, and the draws of
  a metrics update.
\<close>

definition example_alert_inputs :: alert_inputs where
  "example_alert_inputs =
     \<lparr>r_type = 0.1, r_message = 0.6, now_id = 1700000000000, r_id = 0.5,
      now_timestamp = 1700000000000, r_severity1 = 0.5, r_severity2 = 0.5\<rparr>"

definition example_sample_inputs :: sample_inputs where
  "example_sample_inputs =
     \<lparr>time_string = ''12:00:00'', r_ai = 0.5, r_quantum = 0.5, r_crisis = 0.5, r_response = 0.5\<rparr>"


text \<open>
  The inputs of the three calls of \<open>generateAlert\<close> in one run of the effect, all within
  the same millisecond. The draws for the ids are 1/2, 8193/16384 and 1/4, three
  different doubles.
\<close>

definition same_millisecond_inputs :: "nat \<Rightarrow> alert_inputs" where
  "same_millisecond_inputs i =
     example_alert_inputs
       \<lparr>r_id := (if i = 0 then 1 / 2 else if i = 1 then 8193 / 16384 else 1 / 4)\<rparr>"

section \<open>Properties\<close>

lemma push_datas_snoc: "push_datas q (es @ [e]) = push_data e (push_datas q es)"
  by (simp add: push_datas_def)

lemma push_alerts_snoc: "push_alerts q (es @ [e]) = push_alert e (push_alerts q es)"
  by (simp add: push_alerts_def)

lemma last_ten_step:
  "drop (length (drop (length xs - 10) xs) - 9) (drop (length xs - 10) xs) @ [e]
     = drop (length (xs @ [e]) - 10) (xs @ [e])"
proof -
  have "length (drop (length xs - 10) xs) - 9 + (length xs - 10) = length xs - 9"
    by (cases "10 \<le> length xs") auto
  then have "drop (length (drop (length xs - 10) xs) - 9) (drop (length xs - 10) xs)
               = drop (length xs - 9) xs"
    by (simp only: drop_drop)
  moreover have "drop (length (xs @ [e]) - 10) (xs @ [e]) = drop (length xs - 9) xs @ [e]"
    by simp
  ultimately show ?thesis by simp
qed

lemma push_datas_last:
  "es \<noteq> [] \<Longrightarrow> push_datas q es = drop (length (q @ es) - 10) (q @ es)"
proof (induction es rule: rev_induct)
  case Nil
  then show ?case by simp
next
  case (snoc e es)
  show ?case
  proof (cases "es = []")
    case True
    then show ?thesis by (simp add: push_datas_def push_data_def)
  next
    case False
    with snoc have ih: "push_datas q es = drop (length (q @ es) - 10) (q @ es)" by simp
    have "push_datas q (es @ [e])
            = drop (length (drop (length (q @ es) - 10) (q @ es)) - 9)
                (drop (length (q @ es) - 10) (q @ es)) @ [e]"
      unfolding push_datas_snoc ih push_data_def ..
    also have "\<dots> = drop (length ((q @ es) @ [e]) - 10) ((q @ es) @ [e])"
      by (rule last_ten_step)
    finally show ?thesis by simp
  qed
qed

lemma push_alerts_last:
  "es \<noteq> [] \<Longrightarrow> push_alerts q es = take 10 (rev es @ q)"
proof (induction es rule: rev_induct)
  case Nil
  then show ?case by simp
next
  case (snoc e es)
  show ?case
  proof (cases "es = []")
    case True
    then show ?thesis by (simp add: push_alerts_def push_alert_def)
  next
    case False
    with snoc have ih: "push_alerts q es = take 10 (rev es @ q)" by simp
    have "take 9 (take 10 (rev es @ q)) = take 9 (rev es @ q)"
      by (simp only: take_take) simp
    then have "push_alerts q (es @ [e]) = e # take 9 (rev es @ q)"
      unfolding push_alerts_snoc ih push_alert_def by (simp only:)
    also have "\<dots> = take 10 (e # (rev es @ q))" by simp
    finally show ?thesis by simp
  qed
qed

lemma push_data_evicts_oldest: "length q = 10 \<Longrightarrow> push_data e q = tl q @ [e]"
  by (simp add: push_data_def drop_Suc)

lemma push_alert_evicts_oldest: "length q = 10 \<Longrightarrow> push_alert e q = e # butlast q"
  by (simp add: push_alert_def butlast_conv_take)

subsection \<open>The bounded queues\<close>

text \<open>
  Claim C1, as the code has it. After more than ten pushes, whatever the queue held
  before, the live-data queue is exactly the last ten pushed samples, oldest first and
  newest last, and the alerts queue is exactly the last ten pushed alerts, newest first
  and oldest last. Both have length ten. (By \<open>push_data_evicts_oldest\<close> and
  \<open>push_alert_evicts_oldest\<close> a push on a full queue drops the oldest element: the head
  of the live data, the last of the alerts.)
\<close>

theorem bounded_queues_keep_last_ten:
  assumes "10 < length es"
  shows "push_datas q es = drop (length es - 10) es
       \<and> push_alerts q es = rev (drop (length es - 10) es)
       \<and> length (push_datas q es) = 10 \<and> length (push_alerts q es) = 10"
proof -
  from assms have ne: "es \<noteq> []" by auto
  have d: "push_datas q es = drop (length es - 10) es"
    using assms push_datas_last [OF ne, of q] by simp
  have "push_alerts q es = take 10 (rev es)"
    using assms push_alerts_last [OF ne, of q] by simp
  also have "\<dots> = rev (drop (length es - 10) es)"
    by (simp add: take_rev)
  finally have a: "push_alerts q es = rev (drop (length es - 10) es)" .
  from assms show ?thesis unfolding d a by simp
qed

text \<open>Thirteen pushes on a queue holding one element: 4 to 13 remain.\<close>

theorem bounded_queues_keep_last_ten_witness:
  "10 < length [1, 2, 3, 4, 5, 6, 7, 8, 9, 10, 11, 12, 13 :: nat]
   \<and> push_datas [0] [1, 2, 3, 4, 5, 6, 7, 8, 9, 10, 11, 12, 13 :: nat]
       = [4, 5, 6, 7, 8, 9, 10, 11, 12, 13]
   \<and> push_alerts [0] [1, 2, 3, 4, 5, 6, 7, 8, 9, 10, 11, 12, 13 :: nat]
       = [13, 12, 11, 10, 9, 8, 7, 6, 5, 4]"
proof -
  have h: "10 < length [1, 2, 3, 4, 5, 6, 7, 8, 9, 10, 11, 12, 13 :: nat]" by simp
  show ?thesis
    using h bounded_queues_keep_last_ten [OF h, of "[0]"] by simp
qed

text \<open>
  The alerts queue is not in push order: eleven pushes on the empty queue leave the
  newest alert at the head.
\<close>

theorem alerts_queue_newest_first_counterexample:
  "push_alerts [] [1, 2, 3, 4, 5, 6, 7, 8, 9, 10, 11 :: nat] = [11, 10, 9, 8, 7, 6, 5, 4, 3, 2]
   \<and> push_alerts [] [1, 2, 3, 4, 5, 6, 7, 8, 9, 10, 11 :: nat] \<noteq> [2, 3, 4, 5, 6, 7, 8, 9, 10, 11]"
  by (simp add: push_alerts_def push_alert_def)

subsection \<open>The severity of a generated alert\<close>

lemma random_element_Some:
  assumes "xs \<noteq> []" and "0 \<le> r" and "r < 1"
  shows "\<exists>x \<in> set xs. random_element xs r = Some x"
proof -
  define i where "i = \<lfloor>r * real (length xs)\<rfloor>"
  from assms(1) have n: "0 < real (length xs)" by simp
  from assms(2) have "real_of_int 0 \<le> r * real (length xs)" by simp
  then have lo: "0 \<le> i" unfolding i_def by (simp only: le_floor_iff)
  from assms(3) n have "r * real (length xs) < real_of_int (int (length xs))" by simp
  then have hi: "i < int (length xs)" unfolding i_def by (simp only: floor_less_iff)
  from lo hi have "nat i < length xs" by linarith
  then have "xs ! nat i \<in> set xs" by simp
  moreover from lo hi have "random_element xs r = Some (xs ! nat i)"
    unfolding random_element_def Let_def i_def [symmetric] by simp
  ultimately show ?thesis by simp
qed

lemma alertTypes_messages: "t \<in> set alertTypes \<Longrightarrow> messages t \<noteq> []"
  by (auto simp: alertTypes_def)

lemma generateAlert_Some:
  assumes "0 \<le> r_type inp" and "r_type inp < 1"
      and "0 \<le> r_message inp" and "r_message inp < 1"
  shows "\<exists>a. generateAlert inp = Some a
           \<and> severity a = severity_of_draws (r_severity1 inp) (r_severity2 inp)"
proof -
  have "alertTypes \<noteq> []" by (simp add: alertTypes_def)
  from random_element_Some [OF this assms(1,2)]
  obtain t where t: "t \<in> set alertTypes" "random_element alertTypes (r_type inp) = Some t"
    by blast
  from random_element_Some [OF alertTypes_messages [OF t(1)] assms(3,4)]
  obtain m where m: "random_element (messages t) (r_message inp) = Some m"
    by blast
  from t(2) m show ?thesis by (simp add: generateAlert_def)
qed

text \<open>
  Claim C2, as the code has it. With the draws for the type and the message in
  \<open>[0, 1)\<close>, \<open>generateAlert\<close> returns an alert whose severity two draws decide: high when
  the first draw is above 0.7; otherwise medium when the second draw is above 0.4, and
  low when it is not. This is the severity that the one-draw rule of the specification
  gives for the first draw exactly when the first draw is above 0.7 or both draws lie on
  the same side of 0.4.
\<close>

theorem generateAlert_severity_two_draws:
  assumes "0 \<le> r_type inp" and "r_type inp < 1"
      and "0 \<le> r_message inp" and "r_message inp < 1"
  shows "map_option severity (generateAlert inp)
           = Some (if r_severity1 inp > 0.7 then High
                   else if r_severity2 inp > 0.4 then Medium else Low)
       \<and> (map_option severity (generateAlert inp) = Some (spec_severity (r_severity1 inp)))
           = (r_severity1 inp > 0.7 \<or> (r_severity1 inp > 0.4) = (r_severity2 inp > 0.4))"
proof -
  from generateAlert_Some [OF assms]
  obtain a where a: "generateAlert inp = Some a"
      "severity a = severity_of_draws (r_severity1 inp) (r_severity2 inp)"
    by blast
  then show ?thesis
    by (auto simp: severity_of_draws_def spec_severity_def)
qed

theorem generateAlert_severity_two_draws_witness:
  "0 \<le> r_type example_alert_inputs \<and> r_type example_alert_inputs < 1
   \<and> 0 \<le> r_message example_alert_inputs \<and> r_message example_alert_inputs < 1
   \<and> map_option severity (generateAlert example_alert_inputs) = Some Medium
   \<and> map_option severity (generateAlert (example_alert_inputs\<lparr>r_severity1 := 0.9\<rparr>)) = Some High"
proof -
  have h: "0 \<le> r_type example_alert_inputs" "r_type example_alert_inputs < 1"
      "0 \<le> r_message example_alert_inputs" "r_message example_alert_inputs < 1"
    by (simp_all add: example_alert_inputs_def)
  have k: "0 \<le> r_type (example_alert_inputs\<lparr>r_severity1 := 0.9\<rparr>)"
      "r_type (example_alert_inputs\<lparr>r_severity1 := 0.9\<rparr>) < 1"
      "0 \<le> r_message (example_alert_inputs\<lparr>r_severity1 := 0.9\<rparr>)"
      "r_message (example_alert_inputs\<lparr>r_severity1 := 0.9\<rparr>) < 1"
    by (simp_all add: example_alert_inputs_def)
  show ?thesis
    using h generateAlert_severity_two_draws [OF h] generateAlert_severity_two_draws [OF k]
    by (simp add: example_alert_inputs_def)
qed

text \<open>
  No single draw decides the severity of the generated alert. With the draws 0.5 and
  0.3 it is low, where the one-draw rule gives medium for the first draw; with the
  draws 0.8 and 0.3 it is high, where the one-draw rule gives low for the second draw.
\<close>

theorem generateAlert_severity_single_draw_counterexample:
  "map_option severity
     (generateAlert (example_alert_inputs\<lparr>r_severity1 := 0.5, r_severity2 := 0.3\<rparr>)) = Some Low
   \<and> spec_severity 0.5 = Medium
   \<and> map_option severity
       (generateAlert (example_alert_inputs\<lparr>r_severity1 := 0.8, r_severity2 := 0.3\<rparr>)) = Some High
   \<and> spec_severity 0.3 = Low"
  by (simp add: generateAlert_def example_alert_inputs_def random_element_def alertTypes_def
      severity_of_draws_def spec_severity_def)

subsection \<open>The system metrics\<close>

lemma initial_metrics_in_range: "within_clamp_ranges initial_metrics"
  by (simp add: within_clamp_ranges_def initial_metrics_def)

lemma update_metrics_in_range: "within_clamp_ranges (update_metrics d m)"
  by (simp add: within_clamp_ranges_def update_metrics_def)

lemma fire_in_range:
  "within_clamp_ranges (systemMetrics s) \<Longrightarrow> within_clamp_ranges (systemMetrics (fire t s))"
  by (cases t)
     (simp_all add: alertCallback_def metricsCallback_def connectionCallback_def
        update_metrics_in_range split: option.splits)

lemma run_in_range:
  "within_clamp_ranges (systemMetrics s) \<Longrightarrow> within_clamp_ranges (systemMetrics (run s ts))"
  unfolding run_def
  by (induction ts arbitrary: s) (simp_all add: fire_in_range)

lemma mount_metrics: "systemMetrics (mount ai si st s) = systemMetrics s"
  by (simp add: mount_def Let_def split: option.splits)

text \<open>
  Claim C3. From the initial state of the component, after the effect has run and after
  any finite sequence of timer ticks, whatever they draw, each of the five metrics is
  within its clamp range: \<open>ai_accuracy\<close> in [90, 99], \<open>quantum_efficiency\<close> in [80, 95],
  \<open>active_predictions\<close> in [100, 200], \<open>crisis_alerts\<close> in [0, 20] and \<open>response_time\<close> in
  [1, 5].
\<close>

theorem metrics_stay_in_clamp_ranges:
  "within_clamp_ranges (systemMetrics (run (mount ai si st initial_dashboard) ts))"
  by (rule run_in_range) (simp add: mount_metrics initial_dashboard_def initial_metrics_in_range)



subsection \<open>Dismissing and acknowledging\<close>

text \<open>
  Claim C5. Dismissing an id a second time changes nothing, and dismissing an id that no
  alert of the queue carries returns the queue as it was.
\<close>

theorem dismiss_idempotent:
  "dismissAlert i (dismissAlert i q) = dismissAlert i q
   \<and> (i \<notin> id_alert ` set q \<longrightarrow> dismissAlert i q = q)"
  by (auto simp: dismissAlert_def filter_id_conv)

theorem dismiss_idempotent_witness:
  "2 \<notin> id_alert ` set [example_alert 1]
   \<and> dismissAlert 2 [example_alert 1] = [example_alert 1]
   \<and> dismissAlert 1 (dismissAlert 1 [example_alert 1, example_alert 3]) = [example_alert 3]"
  using dismiss_idempotent [of 2 "[example_alert 1]"]
    dismiss_idempotent [of 1 "[example_alert 1, example_alert 3]"]
  by (simp add: example_alert_def dismissAlert_def)

lemma run_ops_Cons: "run_ops q (op # ops) = run_ops (apply_op op q) ops"
  by (simp add: run_ops_def)

lemma run_ops_snoc: "run_ops q (ops @ [op]) = apply_op op (run_ops q ops)"
  by (simp add: run_ops_def)

lemma mark_read_run:
  "run_ops q (map MarkRead ids) = map (\<lambda>a. a\<lparr>read := read a \<or> id_alert a \<in> set ids\<rparr>) q"
proof (induction ids rule: rev_induct)
  case Nil
  show ?case by (simp add: run_ops_def)
next
  case (snoc i ids)
  show ?case
    by (simp add: run_ops_snoc snoc markAsRead_def)
qed

lemma apply_op_origin:
  "set (apply_op op q) \<subseteq> or_acknowledged (set q \<union> set (pushed [op]))"
proof (cases op)
  case (Push a)
  then show ?thesis by (auto simp: push_alert_def or_acknowledged_def dest: in_set_takeD)
next
  case (Dismiss i)
  then show ?thesis by (auto simp: dismissAlert_def or_acknowledged_def)
next
  case (MarkRead i)
  then show ?thesis by (auto simp: markAsRead_def or_acknowledged_def)
qed

lemma pushed_Cons: "set (pushed (op # ops)) = set (pushed [op]) \<union> set (pushed ops)"
  by (cases op) auto

lemma or_acknowledged_mono: "A \<subseteq> B \<Longrightarrow> or_acknowledged A \<subseteq> or_acknowledged B"
  by (auto simp: or_acknowledged_def)

lemma or_acknowledged_idem: "or_acknowledged (or_acknowledged A) = or_acknowledged A"
  by (auto simp: or_acknowledged_def)

lemma or_acknowledged_Un: "or_acknowledged (A \<union> B) = or_acknowledged A \<union> or_acknowledged B"
  by (auto simp: or_acknowledged_def)

lemma run_ops_origin:
  "set (run_ops q ops) \<subseteq> or_acknowledged (set q \<union> set (pushed ops))"
proof (induction ops arbitrary: q)
  case Nil
  show ?case by (auto simp: run_ops_def or_acknowledged_def)
next
  case (Cons op ops)
  have "set (run_ops q (op # ops)) \<subseteq> or_acknowledged (set (apply_op op q) \<union> set (pushed ops))"
    unfolding run_ops_Cons by (rule Cons.IH)
  also have "\<dots> \<subseteq> or_acknowledged
      (or_acknowledged (set q \<union> set (pushed [op])) \<union> or_acknowledged (set (pushed ops)))"
    using apply_op_origin [of op q]
    by (intro or_acknowledged_mono) (auto simp: or_acknowledged_def)
  also have "\<dots> = or_acknowledged (set q \<union> set (pushed (op # ops)))"
    using pushed_Cons [of op ops]
    by (simp add: or_acknowledged_Un or_acknowledged_idem Un_assoc)
  finally show ?case .
qed

text \<open>
  Claim C6. A run of acknowledgements leaves every alert in place and changes nothing
  but its flag, which becomes the old flag or-ed with whether its id was acknowledged: a
  flag that was set stays set. And after any run of pushes, dismissals and
  acknowledgements, every alert in the queue is an alert of the starting queue or a
  pushed one, either as it was or with its flag set: no operation clears a flag.
\<close>

theorem acknowledged_never_reverts:
  "run_ops q (map MarkRead ids) = map (\<lambda>a. a\<lparr>read := read a \<or> id_alert a \<in> set ids\<rparr>) q
   \<and> (\<forall>a' \<in> set (run_ops q ops).
         \<exists>a \<in> set q \<union> set (pushed ops). a' = a \<or> a' = a\<lparr>read := True\<rparr>)"
proof
  show "run_ops q (map MarkRead ids) = map (\<lambda>a. a\<lparr>read := read a \<or> id_alert a \<in> set ids\<rparr>) q"
    by (rule mark_read_run)
  show "\<forall>a' \<in> set (run_ops q ops).
          \<exists>a \<in> set q \<union> set (pushed ops). a' = a \<or> a' = a\<lparr>read := True\<rparr>"
    using run_ops_origin [of q ops] by (auto simp: or_acknowledged_def)
qed

text \<open>
  Alert 1 is acknowledged twice, with a push and a dismissal of another alert in
  between: it is still in the queue and still acknowledged.
\<close>

theorem acknowledged_never_reverts_witness:
  "run_ops [example_alert 1] (map MarkRead [1, 1]) = [(example_alert 1)\<lparr>read := True\<rparr>]
   \<and> (example_alert 1)\<lparr>read := True\<rparr>
        \<in> set (run_ops [example_alert 1]
                 [MarkRead 1, Push (example_alert 2), Dismiss 2, MarkRead 1])
   \<and> (\<exists>a \<in> set [example_alert 1]
             \<union> set (pushed [MarkRead 1, Push (example_alert 2), Dismiss 2, MarkRead 1]).
         (example_alert 1)\<lparr>read := True\<rparr> = a \<or> (example_alert 1)\<lparr>read := True\<rparr> = a\<lparr>read := True\<rparr>)"
  using acknowledged_never_reverts [of "[example_alert 1]" "[1, 1]"
      "[MarkRead 1, Push (example_alert 2), Dismiss 2, MarkRead 1]"]
  by (simp add: run_ops_def example_alert_def markAsRead_def dismissAlert_def push_alert_def)

subsection \<open>Alert ids\<close>

text \<open>
  The operations on the queue do not create a shared id: when the alerts of the queue
  and the alerts pushed have pairwise distinct ids, so has the queue after any run.
\<close>

lemma distinct_push:
  "distinct (xs @ x # ys) \<Longrightarrow> distinct (x # take n xs @ ys)"
  by (auto dest: in_set_takeD)

lemma apply_op_distinct:
  "distinct (map id_alert (q @ pushed (op # ops)))
   \<Longrightarrow> distinct (map id_alert (apply_op op q @ pushed ops))"
proof (cases op)
  case (Push a)
  assume "distinct (map id_alert (q @ pushed (op # ops)))"
  with Push have "distinct (map id_alert q @ id_alert a # map id_alert (pushed ops))"
    by simp
  then have "distinct (id_alert a # take 9 (map id_alert q) @ map id_alert (pushed ops))"
    by (rule distinct_push)
  with Push show ?thesis
    by (simp add: push_alert_def take_map)
next
  case (Dismiss i)
  assume "distinct (map id_alert (q @ pushed (op # ops)))"
  with Dismiss show ?thesis
    by (auto simp: dismissAlert_def distinct_map_filter)
next
  case (MarkRead i)
  have "map id_alert (markAsRead i q) = map id_alert q"
    by (simp add: markAsRead_def)
  moreover assume "distinct (map id_alert (q @ pushed (op # ops)))"
  ultimately show ?thesis using MarkRead by simp
qed

lemma run_ops_distinct:
  "distinct (map id_alert (q @ pushed ops)) \<Longrightarrow> distinct (map id_alert (run_ops q ops))"
proof (induction ops arbitrary: q)
  case Nil
  then show ?case by (simp add: run_ops_def)
next
  case (Cons op ops)
  from Cons.prems have "distinct (map id_alert (apply_op op q @ pushed ops))"
    by (rule apply_op_distinct)
  then show ?case unfolding run_ops_Cons by (rule Cons.IH)
qed

text \<open>
  Claim C8 fails in the code. The three alerts that the effect generates within one
  millisecond draw different numbers for their ids, 1/2 and 8193/16384 for the first
  two. At the clock value 1700000000000 neighbouring doubles are \<open>1 / 4096\<close> apart, both
  sums round to 1700000000000.5, and the queue holds two live alerts with one id. The
  id is what \<open>dismissAlert\<close> and \<open>markAsRead\<close> select by: dismissing it removes both
  alerts.
\<close>

theorem generated_ids_collide:
  "r_id (same_millisecond_inputs 0) \<noteq> r_id (same_millisecond_inputs 1)
   \<and> map id_alert
       (alerts (mount same_millisecond_inputs (\<lambda>i. example_sample_inputs)
                  (\<lambda>i. ''12:00:00'') initial_dashboard))
       = [1700000000000.5, 1700000000000.5, 1700000000000.25]
   \<and> \<not> distinct (map id_alert
       (alerts (mount same_millisecond_inputs (\<lambda>i. example_sample_inputs)
                  (\<lambda>i. ''12:00:00'') initial_dashboard)))
   \<and> length (dismissAlert 1700000000000.5
       (alerts (mount same_millisecond_inputs (\<lambda>i. example_sample_inputs)
                  (\<lambda>i. ''12:00:00'') initial_dashboard))) = 1"
  by (simp add: mount_def generateAlert_def same_millisecond_inputs_def example_alert_inputs_def
      random_element_def alertTypes_def double_sum_def round_half_even_def upt_rec
      initial_dashboard_def dismissAlert_def)

subsection \<open>Stopping the timers\<close>

lemma fire_cleanup: "fire t (cleanup s) = cleanup s"
  by (cases t) (simp_all add: cleanup_def)

lemma run_cleanup: "run (cleanup s) ts = cleanup s"
  unfolding run_def by (induction ts) (simp_all add: fire_cleanup)

lemma fire_championship_stopped:
  "Interval \<notin> timers c \<Longrightarrow> LiveAlertInterval \<notin> timers c \<Longrightarrow>
   Interval \<notin> timers (fire_championship t c) \<and> LiveAlertInterval \<notin> timers (fire_championship t c)
   \<and> metrics (fire_championship t c) = metrics c \<and> liveAlerts (fire_championship t c) = liveAlerts c"
  by (cases t) simp_all

lemma run_championship_stopped:
  "Interval \<notin> timers c \<Longrightarrow> LiveAlertInterval \<notin> timers c \<Longrightarrow>
   metrics (run_championship c ts) = metrics c \<and> liveAlerts (run_championship c ts) = liveAlerts c"
  unfolding run_championship_def
proof (induction ts arbitrary: c)
  case Nil
  show ?case by simp
next
  case (Cons t ts)
  from fire_championship_stopped [OF Cons.prems, of t] Cons.IH [of "fire_championship t c"]
  show ?case by simp
qed

text \<open>While its interval is registered, a metrics tick does change the state.\<close>

lemma running_metrics_tick:
  "MetricsInterval \<in> intervals s \<Longrightarrow>
   liveData (fire (MetricsTick inp d) s) = push_data (generateMetricsData inp) (liveData s)
   \<and> systemMetrics (fire (MetricsTick inp d) s) = update_metrics d (systemMetrics s)"
  by (simp add: metricsCallback_def)

text \<open>
  Claim C9. Once the cleanup of the effect has run, timer periods that elapse change
  nothing, whatever their callbacks would have drawn: the whole state of
  RealTimeDashboard, so its alerts, live data and system metrics, is as at the cleanup,
  and so are the metrics and live alerts of ChampionshipDashboard. Running a cleanup a
  second time changes nothing.
\<close>

theorem stopped_scheduler_is_silent:
  "run (cleanup s) ts = cleanup s
   \<and> alerts (run (cleanup s) ts) = alerts s
   \<and> liveData (run (cleanup s) ts) = liveData s
   \<and> systemMetrics (run (cleanup s) ts) = systemMetrics s
   \<and> cleanup (cleanup s) = cleanup s
   \<and> metrics (run_championship (cleanup_championship c) cs) = metrics c
   \<and> liveAlerts (run_championship (cleanup_championship c) cs) = liveAlerts c
   \<and> cleanup_championship (cleanup_championship c) = cleanup_championship c"
proof -
  have "metrics (run_championship (cleanup_championship c) cs) = metrics (cleanup_championship c)
      \<and> liveAlerts (run_championship (cleanup_championship c) cs)
          = liveAlerts (cleanup_championship c)"
    by (rule run_championship_stopped) (simp_all add: cleanup_championship_def)
  then show ?thesis
    by (simp add: run_cleanup) (simp add: cleanup_def cleanup_championship_def)
qed

subsection \<open>The crisis hotspots\<close>

text \<open>
  Claim C10. \<open>generateCrisisHotspots\<close> stores the same list whatever the state it starts
  from, and so does \<open>refreshData\<close>: five hotspots with the ids 1 to 5 and the severities
  critical, high, high, medium, medium. A refresh leaves the displayed hotspots as they
  were.
\<close>

theorem hotspots_are_constant:
  "crisisHotspots (generateCrisisHotspots s) = crisisHotspots (generateCrisisHotspots s')
   \<and> crisisHotspots (refreshData s) = crisisHotspots (generateCrisisHotspots s')
   \<and> crisisHotspots (refreshData (generateCrisisHotspots s))
       = crisisHotspots (generateCrisisHotspots s)
   \<and> crisisHotspots (generateCrisisHotspots s) = hotspots
   \<and> length (crisisHotspots (generateCrisisHotspots s)) = 5
   \<and> map id_hotspot (crisisHotspots (generateCrisisHotspots s)) = [1, 2, 3, 4, 5]
   \<and> map severity_hotspot (crisisHotspots (generateCrisisHotspots s))
       = [''critical'', ''high'', ''high'', ''medium'', ''medium'']"
  by (simp add: generateCrisisHotspots_def refreshData_def hotspots_def)

subsection \<open>Failing network calls\<close>

text \<open>
  Claim C7. When the call rejects, \<open>handlePredict\<close> of CrisisPredictor shows the fixed
  fallback prediction, but \<open>runPrediction\<close> of AdvancedAIPredictor shows none: from the
  initial state a rejected call returns the component to that state, with no
  prediction and an empty history.
\<close>

theorem runPrediction_failure_no_fallback:
  "runPrediction (Inl ''Failed to fetch'') ''12:00:00'' initial_advanced_ai_predictor
     = initial_advanced_ai_predictor
   \<and> prediction_ai
       (runPrediction (Inl ''Failed to fetch'') ''12:00:00'' initial_advanced_ai_predictor) = None
   \<and> prediction (handlePredict (Inl ''Network Error'') initial_crisis_predictor)
       = Some fallback_prediction"
  by (simp add: runPrediction_def handlePredict_def initial_advanced_ai_predictor_def
      initial_crisis_predictor_def)

end
